theory Spec2Isabelle
  imports Complex_Main
begin

section \<open>The motor sequencer of motor\_gui.py\<close>

text \<open>
  The development embeds the sequencing core of \<^verbatim>\<open>motor_gui.py\<close>: the unit conversion,
  the worker loop \<^verbatim>\<open>_run_sequence\<close>, the button handlers \<^verbatim>\<open>_start_seq\<close>,
  \<^verbatim>\<open>_stop_seq\<close>, \<^verbatim>\<open>_connect\<close> and the read-back poller \<^verbatim>\<open>_poll_speeds\<close>.

  Conventions of the embedding:
  \<^item> Python floats are exact rationals (\<^typ>\<open>rat\<close>); Python integers are \<^typ>\<open>int\<close>.
  \<^item> An entry widget is represented by the result of parsing its text: \<open>None\<close> when
    \<^verbatim>\<open>float()\<close> or \<^verbatim>\<open>int()\<close> raises \<^verbatim>\<open>ValueError\<close>.
  \<^item> The remote link is an oracle: whether the k-th \<^verbatim>\<open>set_value\<close> of a run raises, and what
    the k-th \<^verbatim>\<open>_stop_flag.is_set()\<close> of the worker answers.
  \<^item> \<^verbatim>\<open>time.sleep(d)\<close> advances the clock by \<open>d\<close>; every other statement takes no time.
  \<^item> Everything the worker does to the outside is appended to a trace of events.
\<close>

subsection \<open>Constants and data\<close>

definition USE_SCOPE :: bool where
  "USE_SCOPE = True"

definition POLL_MS :: nat where
  "POLL_MS = 500"

text \<open>The five MCAF variable paths.\<close>

datatype var = HWUI_VAR | VELOCITY_CMD | VELOCITY_MEAS | RUN_REQ_VAR | STOP_REQ_VAR

datatype exn = ValueError | ZeroDivisionError | AttributeError | LinkError

text \<open>
  The texts put into the status line: \<^verbatim>\<open>Cycle n/cycles: RUN @ rpm RPM\<close>,
  \<^verbatim>\<open>Cycle n/cycles: STOP\<close>, \<^verbatim>\<open>Stopped by user\<close>, \<^verbatim>\<open>Done - motor idle\<close> and the others.
\<close>

datatype status =
    IdleNotConnected
  | Connected string
  | Disconnected
  | Stopping
  | CycleRun int int rat
  | CycleStop int int
  | StoppedByUser
  | DoneMotorIdle

datatype callback = PollSpeeds | ReenableButtons

datatype event =
    SetStatus status
  | Write var int
  | WriteFailed var int
  | Sleep rat
  | IsSet bool
  | After nat callback

datatype btn = Normal | Disabled

datatype dialog = ShowWarning string string | ShowError string string

text \<open>A read-back label shows either the dash or \<^verbatim>\<open>{rpm:+.0f} RPM ({cnt})\<close>.\<close>

datatype display = Dash | Reading rat int

type_synonym params = "rat \<times> rat \<times> rat \<times> rat \<times> int"

record gui =
  connected :: bool
  thread :: "bool option"
  stop_flag :: bool
  params :: "params option"
  scope_open :: bool
  hwui_var :: "var option"
  cmd_var :: "var option"
  meas_var :: "var option"
  run_var :: "var option"
  stop_var :: "var option"
  port_var :: string
  elf_path :: string
  speed_entry :: "rat option"
  scale_entry :: "rat option"
  run_entry :: "rat option"
  stop_entry :: "rat option"
  cycle_entry :: "int option"
  conn_btn :: string
  start_btn :: btn
  stop_btn :: btn
  status :: status
  meas_str :: display
  cmd_str :: display
  dialogs :: "dialog list"
  sent :: "(var \<times> int) list"
  timers :: "(nat \<times> callback) list"

text \<open>
  \<open>thread\<close> is \<open>None\<close> while \<^verbatim>\<open>self._thread\<close> is \<^verbatim>\<open>None\<close>, and \<open>Some alive\<close> afterwards.
  A handle field is \<open>None\<close> while the attribute does not exist. \<open>sent\<close> lists the
  writes the GUI thread made to the target, \<open>timers\<close> the pending \<^verbatim>\<open>root.after\<close> calls.
\<close>

subsection \<open>Unit conversion\<close>

text \<open>Python's \<^verbatim>\<open>round\<close> of a float: to the nearest integer, ties to the even one.\<close>

definition py_round :: "rat \<Rightarrow> int" where
  "py_round x =
     (let f = \<lfloor>x\<rfloor>; d = x - of_int f
      in if d < 1 / 2 then f
         else if 1 / 2 < d then f + 1
         else if even f then f else f + 1)"

text \<open>\<^verbatim>\<open>int(round(rpm / scale))\<close>; the division raises when the scale is zero.\<close>

definition rpm_to_counts :: "rat \<Rightarrow> rat \<Rightarrow> exn + int" where
  "rpm_to_counts rpm scale =
     (if scale = 0 then Inl ZeroDivisionError else Inr (py_round (rpm / scale)))"


subsection \<open>The worker's world\<close>

record env =
  flag :: "nat \<Rightarrow> bool"
  wfail :: "nat \<Rightarrow> bool"

record world =
  now :: rat
  checks :: nat
  wcount :: nat
  trace :: "event list"

datatype ctl = Next | Break | Raise exn

definition is_set :: "env \<Rightarrow> world \<Rightarrow> bool \<times> world" where
  "is_set e w =
     (flag e (checks w),
      w\<lparr>checks := Suc (checks w), trace := trace w @ [IsSet (flag e (checks w))]\<rparr>)"

definition sleep :: "rat \<Rightarrow> world \<Rightarrow> world" where
  "sleep d w = w\<lparr>now := now w + d, trace := trace w @ [Sleep d]\<rparr>"

definition set_status :: "status \<Rightarrow> world \<Rightarrow> world" where
  "set_status st w = w\<lparr>trace := trace w @ [SetStatus st]\<rparr>"

definition after :: "nat \<Rightarrow> callback \<Rightarrow> world \<Rightarrow> world" where
  "after ms cb w = w\<lparr>trace := trace w @ [After ms cb]\<rparr>"

text \<open>
  \<^verbatim>\<open>self.x_var.set_value(v)\<close> in the worker: \<^verbatim>\<open>AttributeError\<close> when the handle was never
  bound, the link's exception when the write fails.
\<close>

definition set_value :: "env \<Rightarrow> var option \<Rightarrow> int \<Rightarrow> world \<Rightarrow> exn option \<times> world" where
  "set_value e h v w =
     (case h of
        None \<Rightarrow> (Some AttributeError, w)
      | Some x \<Rightarrow>
          if wfail e (wcount w)
          then (Some LinkError, w\<lparr>wcount := Suc (wcount w), trace := trace w @ [WriteFailed x v]\<rparr>)
          else (None, w\<lparr>wcount := Suc (wcount w), trace := trace w @ [Write x v]\<rparr>))"

subsection \<open>The timed wait\<close>

text \<open>
  \<^verbatim>\<open>
  while time.time() - t0 < dur:
      if self._stop_flag.is_set():
          break
      time.sleep(0.05)
  \<close>
\<close>

function wait_loop :: "env \<Rightarrow> rat \<Rightarrow> rat \<Rightarrow> world \<Rightarrow> world" where
  "wait_loop e t0 dur w =
     (if now w - t0 < dur
      then (case is_set e w of
              (True, w1) \<Rightarrow> w1
            | (False, w1) \<Rightarrow> wait_loop e t0 dur (sleep (1 / 20) w1))
      else w)"
  by pat_completeness auto
termination
proof (relation "measure (\<lambda>(e, t0, dur, w). nat \<lceil>(t0 + dur - now w) * 20\<rceil>)", goal_cases)
  case 1
  show ?case by simp
next
  case (2 e t0 dur w x1 w1)
  then have w1: "now w1 = now w"
    by (auto simp: is_set_def)
  from 2 have pos: "0 < (t0 + dur - now w) * 20"
    by simp
  have "(t0 + dur - (now w + 1 / 20)) * 20 = (t0 + dur - now w) * 20 - 1"
    by (simp add: algebra_simps)
  then have "\<lceil>(t0 + dur - (now w + 1 / 20)) * 20\<rceil> = \<lceil>(t0 + dur - now w) * 20\<rceil> - 1"
    by (simp only: ceiling_diff_one)
  moreover from pos have "0 < \<lceil>(t0 + dur - now w) * 20\<rceil>"
    by simp
  ultimately show ?case
    using w1 by (simp add: sleep_def)
qed

declare wait_loop.simps [simp del]

subsection \<open>One cycle of the for loop\<close>

definition stop_phase :: "env \<Rightarrow> gui \<Rightarrow> params \<Rightarrow> int \<Rightarrow> world \<Rightarrow> ctl \<times> world" where
  "stop_phase e g p n w =
     (case p of (rpm, scale, run_t, stop_t, cycles) \<Rightarrow>
        (case set_value e (stop_var g) 1 (set_status (CycleStop n cycles) w) of
           (Some x, w1) \<Rightarrow> (Raise x, w1)
         | (None, w1) \<Rightarrow> (Next, wait_loop e (now w1) stop_t w1)))"

text \<open>The statement after the Run wait: \<^verbatim>\<open>if self._stop_flag.is_set(): break\<close>, then the Stop phase.\<close>

definition after_run_wait :: "env \<Rightarrow> gui \<Rightarrow> params \<Rightarrow> int \<Rightarrow> world \<Rightarrow> ctl \<times> world" where
  "after_run_wait e g p n w =
     (case is_set e w of
        (True, w1) \<Rightarrow> (Break, w1)
      | (False, w1) \<Rightarrow> stop_phase e g p n w1)"

definition run_phase :: "env \<Rightarrow> gui \<Rightarrow> params \<Rightarrow> int \<Rightarrow> int \<Rightarrow> world \<Rightarrow> ctl \<times> world" where
  "run_phase e g p cnt n w =
     (case p of (rpm, scale, run_t, stop_t, cycles) \<Rightarrow>
        (case set_value e (cmd_var g) cnt (set_status (CycleRun n cycles rpm) w) of
           (Some x, w1) \<Rightarrow> (Raise x, w1)
         | (None, w1) \<Rightarrow>
             (case set_value e (run_var g) 1 w1 of
                (Some x, w2) \<Rightarrow> (Raise x, w2)
              | (None, w2) \<Rightarrow> after_run_wait e g p n (wait_loop e (now w2) run_t w2))))"

definition cycle :: "env \<Rightarrow> gui \<Rightarrow> params \<Rightarrow> int \<Rightarrow> int \<Rightarrow> world \<Rightarrow> ctl \<times> world" where
  "cycle e g p cnt n w =
     (case is_set e w of
        (True, w1) \<Rightarrow> (Break, w1)
      | (False, w1) \<Rightarrow> run_phase e g p cnt n w1)"

subsection \<open>The whole sequence\<close>

text \<open>\<^verbatim>\<open>for n in range(1, cycles + 1)\<close> over the remaining indices.\<close>

fun cycles_loop :: "env \<Rightarrow> gui \<Rightarrow> params \<Rightarrow> int \<Rightarrow> int list \<Rightarrow> world \<Rightarrow> exn option \<times> world" where
  "cycles_loop e g p cnt [] w = (None, w)"
| "cycles_loop e g p cnt (n # ns) w =
     (case cycle e g p cnt n w of
        (Next, w1) \<Rightarrow> cycles_loop e g p cnt ns w1
      | (Break, w1) \<Rightarrow> (None, w1)
      | (Raise x, w1) \<Rightarrow> (Some x, w1))"

text \<open>
  \<^verbatim>\<open>
  # ensure motor is stopped
  if getattr(self, "stop_var", None):
      self.stop_var.set_value(1)
  self.status.set("Stopped by user" if self._stop_flag.is_set() else "Done - motor idle")
  self.root.after(0, lambda: (...))
  \<close>
  A bound handle is an object and counts as true.
\<close>

definition ensure_stopped :: "env \<Rightarrow> gui \<Rightarrow> world \<Rightarrow> exn option \<times> world" where
  "ensure_stopped e g w =
     (case (case stop_var g of None \<Rightarrow> (None, w) | Some x \<Rightarrow> set_value e (stop_var g) 1 w) of
        (Some x, w1) \<Rightarrow> (Some x, w1)
      | (None, w1) \<Rightarrow>
          (case is_set e w1 of
             (b, w2) \<Rightarrow>
               (None, after 0 ReenableButtons
                        (set_status (if b then StoppedByUser else DoneMotorIdle) w2))))"

definition run_sequence :: "env \<Rightarrow> gui \<Rightarrow> world \<Rightarrow> exn option \<times> world" where
  "run_sequence e g w =
     (case params g of
        None \<Rightarrow> (Some AttributeError, w)
      | Some p \<Rightarrow>
          (case p of (rpm, scale, run_t, stop_t, cycles) \<Rightarrow>
             (case rpm_to_counts rpm scale of
                Inl x \<Rightarrow> (Some x, w)
              | Inr cnt \<Rightarrow>
                  (case cycles_loop e g p cnt [1..cycles] w of
                     (Some x, w1) \<Rightarrow> (Some x, w1)
                   | (None, w1) \<Rightarrow> ensure_stopped e g w1))))"

text \<open>
  What \<^verbatim>\<open>_run_sequence\<close> still does once the body of the for loop has been left for
  cycle \<open>n\<close> with control \<open>r\<close>, the indices \<open>ns\<close> remaining.
\<close>

definition rest_of_sequence ::
  "env \<Rightarrow> gui \<Rightarrow> params \<Rightarrow> int \<Rightarrow> int list \<Rightarrow> ctl \<times> world \<Rightarrow> exn option \<times> world" where
  "rest_of_sequence e g p cnt ns r =
     (case r of
        (Next, w) \<Rightarrow>
          (case cycles_loop e g p cnt ns w of
             (Some x, w1) \<Rightarrow> (Some x, w1)
           | (None, w1) \<Rightarrow> ensure_stopped e g w1)
      | (Break, w) \<Rightarrow> ensure_stopped e g w
      | (Raise x, w) \<Rightarrow> (Some x, w))"

subsection \<open>Reading traces\<close>

fun is_poll :: "event \<Rightarrow> bool" where
  "is_poll (IsSet b) = True"
| "is_poll (Sleep d) = True"
| "is_poll ev = False"

text \<open>The trace without the flag checks and the sleeps.\<close>

definition commands :: "event list \<Rightarrow> event list" where
  "commands evs = filter (\<lambda>ev. \<not> is_poll ev) evs"

fun is_failed :: "event \<Rightarrow> bool" where
  "is_failed (WriteFailed v x) = True"
| "is_failed ev = False"




definition polls :: "nat \<Rightarrow> event list" where
  "polls k = concat (replicate k [IsSet False, Sleep (1 / 20)])"

text \<open>The handles the worker uses are the ones \<^verbatim>\<open>_connect\<close> binds.\<close>

definition bound :: "gui \<Rightarrow> bool" where
  "bound g \<longleftrightarrow>
     cmd_var g = Some VELOCITY_CMD \<and> run_var g = Some RUN_REQ_VAR \<and>
     stop_var g = Some STOP_REQ_VAR"



subsection \<open>The Start and Stop buttons\<close>

text \<open>The \<^verbatim>\<open>try\<close> block of \<^verbatim>\<open>_start_seq\<close>: five conversions and the range check.\<close>

definition read_params :: "gui \<Rightarrow> exn + params" where
  "read_params s =
     (case speed_entry s of None \<Rightarrow> Inl ValueError | Some rpm \<Rightarrow>
      (case scale_entry s of None \<Rightarrow> Inl ValueError | Some scale \<Rightarrow>
      (case run_entry s of None \<Rightarrow> Inl ValueError | Some run_t \<Rightarrow>
      (case stop_entry s of None \<Rightarrow> Inl ValueError | Some stop_t \<Rightarrow>
      (case cycle_entry s of None \<Rightarrow> Inl ValueError | Some cycles \<Rightarrow>
         if scale \<le> 0 \<or> run_t \<le> 0 \<or> stop_t < 0 \<or> cycles \<le> 0
         then Inl ValueError
         else Inr (rpm, scale, run_t, stop_t, cycles))))))"

text \<open>
  \<^verbatim>\<open>_start_seq\<close>. Starting the thread makes \<open>thread\<close> \<open>Some True\<close>; the worker then runs
  \<open>run_sequence\<close> on the stored parameters.
\<close>

definition start_seq :: "gui \<Rightarrow> gui" where
  "start_seq s =
     (if thread s = Some True then s
      else
        (case read_params s of
           Inl x \<Rightarrow>
             s\<lparr>dialogs := dialogs s @ [ShowError ''Input error'' ''Enter valid numeric values.'']\<rparr>
         | Inr p \<Rightarrow>
             if USE_SCOPE \<and> \<not> connected s
             then s\<lparr>dialogs := dialogs s @
                       [ShowWarning ''Not connected'' ''Connect to a target first.'']\<rparr>
             else s\<lparr>stop_flag := False, params := Some p, thread := Some True,
                    start_btn := Disabled, stop_btn := Normal\<rparr>))"

text \<open>
  \<^verbatim>\<open>_stop_seq\<close>; \<open>ok\<close> tells whether the write to the target succeeds. The exception of a
  failed write leaves the handler before the status is set.
\<close>

definition stop_seq :: "bool \<Rightarrow> gui \<Rightarrow> exn option \<times> gui" where
  "stop_seq ok s =
     (if thread s = Some True
      then
        (case stop_var s of
           None \<Rightarrow> (Some AttributeError, s\<lparr>stop_flag := True\<rparr>)
         | Some x \<Rightarrow>
             if ok
             then (None, s\<lparr>stop_flag := True, sent := sent s @ [(x, 1)], status := Stopping\<rparr>)
             else (Some LinkError, s\<lparr>stop_flag := True\<rparr>))
      else (None, s))"

subsection \<open>Connecting\<close>

text \<open>
  What the outside answers to one \<^verbatim>\<open>_connect\<close>: whether the ELF path is a file, and for
  each call into the link the message of the exception it raises, if it raises.
\<close>

record link =
  is_file :: bool
  open_err :: "string option"
  import_err :: "string option"
  lookup_err :: "var \<Rightarrow> string option"
  write_err :: "string option"

text \<open>\<^verbatim>\<open>_ScopeWrapper.connect\<close>: the scope object is stored before the variables are imported.\<close>

definition scope_connect :: "link \<Rightarrow> gui \<Rightarrow> string option \<times> gui" where
  "scope_connect l s =
     (if \<not> USE_SCOPE then (None, s)
      else
        (case open_err l of
           Some m \<Rightarrow> (Some m, s)
         | None \<Rightarrow>
             (case import_err l of
                Some m \<Rightarrow> (Some m, s\<lparr>scope_open := True\<rparr>)
              | None \<Rightarrow> (None, s\<lparr>scope_open := True\<rparr>))))"

definition get_variable :: "link \<Rightarrow> gui \<Rightarrow> var \<Rightarrow> string + var" where
  "get_variable l s path =
     (if \<not> USE_SCOPE then Inr path
      else if \<not> scope_open s then Inl ''Scope not connected''
      else (case lookup_err l path of Some m \<Rightarrow> Inl m | None \<Rightarrow> Inr path))"

text \<open>The \<^verbatim>\<open>try\<close> block of \<^verbatim>\<open>_connect\<close>, statement by statement.\<close>

definition connect_try :: "link \<Rightarrow> gui \<Rightarrow> string option \<times> gui" where
  "connect_try l s =
     (case scope_connect l s of
        (Some m, s0) \<Rightarrow> (Some m, s0)
      | (None, s0) \<Rightarrow>
     (case get_variable l s0 HWUI_VAR of
        Inl m \<Rightarrow> (Some m, s0)
      | Inr h1 \<Rightarrow>
     (case get_variable l s0 VELOCITY_CMD of
        Inl m \<Rightarrow> (Some m, s0\<lparr>hwui_var := Some h1\<rparr>)
      | Inr h2 \<Rightarrow>
     (case get_variable l s0 VELOCITY_MEAS of
        Inl m \<Rightarrow> (Some m, s0\<lparr>hwui_var := Some h1, cmd_var := Some h2\<rparr>)
      | Inr h3 \<Rightarrow>
     (case get_variable l s0 RUN_REQ_VAR of
        Inl m \<Rightarrow> (Some m, s0\<lparr>hwui_var := Some h1, cmd_var := Some h2, meas_var := Some h3\<rparr>)
      | Inr h4 \<Rightarrow>
     (case get_variable l s0 STOP_REQ_VAR of
        Inl m \<Rightarrow>
          (Some m, s0\<lparr>hwui_var := Some h1, cmd_var := Some h2, meas_var := Some h3,
                       run_var := Some h4\<rparr>)
      | Inr h5 \<Rightarrow>
     (case write_err l of
        Some m \<Rightarrow>
          (Some m, s0\<lparr>hwui_var := Some h1, cmd_var := Some h2, meas_var := Some h3,
                       run_var := Some h4, stop_var := Some h5\<rparr>)
      | None \<Rightarrow>
          (None, s0\<lparr>hwui_var := Some h1, cmd_var := Some h2, meas_var := Some h3,
                     run_var := Some h4, stop_var := Some h5,
                     sent := sent s0 @ [(h1, 0)]\<rparr>))))))))"

definition connect :: "link \<Rightarrow> gui \<Rightarrow> gui" where
  "connect l s =
     (if port_var s = [] \<or> port_var s = ''-'' \<or> elf_path s = []
      then s\<lparr>dialogs := dialogs s @
                [ShowWarning ''Missing info'' ''Choose COM port and ELF file.'']\<rparr>
      else if \<not> is_file l
      then s\<lparr>dialogs := dialogs s @ [ShowError ''File not found'' ''ELF file does not exist.'']\<rparr>
      else
        (case connect_try l s of
           (Some m, s1) \<Rightarrow> s1\<lparr>dialogs := dialogs s1 @ [ShowError ''Connection failed'' m]\<rparr>
         | (None, s1) \<Rightarrow>
             s1\<lparr>connected := True, conn_btn := ''Disconnect'', start_btn := Normal,
                 status := Connected (port_var s)\<rparr>))"



subsection \<open>The read-back poller\<close>





subsection \<open>Concrete states\<close>

text \<open>The window as \<^verbatim>\<open>__init__\<close> leaves it, with the default entries and one poll scheduled.\<close>

definition gui_init :: gui where
  "gui_init =
     \<lparr>connected = False, thread = None, stop_flag = False, params = None, scope_open = False,
      hwui_var = None, cmd_var = None, meas_var = None, run_var = None, stop_var = None,
      port_var = ''-'', elf_path = [],
      speed_entry = Some 1500, scale_entry = Some (19913 / 100000), run_entry = Some 10,
      stop_entry = Some 50, cycle_entry = Some 3,
      conn_btn = ''Connect'', start_btn = Disabled, stop_btn = Disabled,
      status = IdleNotConnected, meas_str = Dash, cmd_str = Dash, dialogs = [], sent = [],
      timers = [(POLL_MS, PollSpeeds)]\<rparr>"

definition good_link :: link where
  "good_link =
     \<lparr>is_file = True, open_err = None, import_err = None, lookup_err = (\<lambda>v. None),
      write_err = None\<rparr>"


text \<open>The window after a port and a file were chosen and Connect succeeded.\<close>

definition gui_connected :: gui where
  "gui_connected = connect good_link (gui_init\<lparr>port_var := ''COM3'', elf_path := ''motor.elf''\<rparr>)"

text \<open>The same window with a sequence running on the default entries.\<close>

definition gui_running :: gui where
  "gui_running = start_seq gui_connected"








subsection \<open>Bookkeeping for traces with a failed write\<close>

text \<open>
  Between two worlds no write failed (\<open>clean\<close>), or exactly one did and it is the last
  event (\<open>aborted\<close>).
\<close>

definition clean :: "world \<Rightarrow> world \<Rightarrow> bool" where
  "clean w w' \<longleftrightarrow> (\<exists>evs. trace w' = trace w @ evs \<and> filter is_failed evs = [])"




section \<open>Properties\<close>

subsection \<open>The timed wait\<close>






subsection \<open>Traces\<close>

lemma commands_Nil [simp]: "commands [] = []"
  by (simp add: commands_def)

lemma commands_Cons [simp]:
  "commands (x # xs) = (if is_poll x then commands xs else x # commands xs)"
  by (simp add: commands_def)

lemma commands_append [simp]: "commands (xs @ ys) = commands xs @ commands ys"
  by (simp add: commands_def)

lemma commands_polls [simp]: "commands (polls k) = []"
  by (induction k) (simp_all add: polls_def)



subsection \<open>Runs without a failing write\<close>





subsection \<open>Runs that nobody cancels\<close>







subsection \<open>The concrete windows\<close>

lemma gui_connected_eq:
  "gui_connected = gui_init\<lparr>port_var := ''COM3'', elf_path := ''motor.elf'', scope_open := True,
     hwui_var := Some HWUI_VAR, cmd_var := Some VELOCITY_CMD, meas_var := Some VELOCITY_MEAS,
     run_var := Some RUN_REQ_VAR, stop_var := Some STOP_REQ_VAR, sent := [(HWUI_VAR, 0)],
     connected := True, conn_btn := ''Disconnect'', start_btn := Normal,
     status := Connected ''COM3''\<rparr>"
  by (simp add: gui_connected_def connect_def connect_try_def scope_connect_def get_variable_def
      good_link_def gui_init_def USE_SCOPE_def)

lemma gui_running_eq:
  "gui_running = gui_connected\<lparr>stop_flag := False,
     params := Some (1500, 19913 / 100000, 10, 50, 3), thread := Some True,
     start_btn := Disabled, stop_btn := Normal\<rparr>"
  by (simp add: gui_running_def start_seq_def read_params_def gui_connected_eq gui_init_def
      USE_SCOPE_def)







subsection \<open>Once the flag is set\<close>




lemma run_sequence_unfold:
  assumes "params g = Some (rpm, scale, run_t, stop_t, cycles)" and "scale \<noteq> 0"
    and "[1..cycles] = n # ns"
  shows "run_sequence e g w =
     rest_of_sequence e g (rpm, scale, run_t, stop_t, cycles) (py_round (rpm / scale)) ns
       (cycle e g (rpm, scale, run_t, stop_t, cycles) (py_round (rpm / scale)) n w)"
  using assms
  by (simp add: run_sequence_def rpm_to_counts_def rest_of_sequence_def
      split: prod.splits ctl.splits option.splits)

lemma rest_of_sequence_Next:
  "rest_of_sequence e g p cnt (n # ns) (Next, w) =
     rest_of_sequence e g p cnt ns (cycle e g p cnt n w)"
  by (simp add: rest_of_sequence_def split: prod.splits ctl.splits option.splits)


subsection \<open>Runs with a failing write\<close>

lemma clean_refl [simp]: "clean w w"
  by (simp add: clean_def)

















subsection \<open>The handlers\<close>

lemma stop_seq_sets_flag:
  "thread s = Some True \<Longrightarrow> stop_flag (snd (stop_seq ok s))"
  by (simp add: stop_seq_def split: option.splits)



lemma connect_try_bound:
  "fst (connect_try l s) = None \<Longrightarrow> bound (snd (connect_try l s))"
  by (auto simp: connect_try_def scope_connect_def get_variable_def USE_SCOPE_def bound_def
      split: option.splits)

section \<open>The claims\<close>



















text \<open>
  C8. While the worker thread is alive \<^verbatim>\<open>_start_seq\<close> returns at once and leaves the
  window as it is: no second thread, no write, the stored parameters, the flag and the
  buttons untouched. A thread is started nowhere else, so at most one sequence runs.
\<close>

theorem start_seq_while_running:
  "thread s = Some True \<Longrightarrow> start_seq s = s"
  by (simp add: start_seq_def)

theorem start_seq_while_running_witness:
  "thread gui_running = Some True \<and> start_seq gui_running = gui_running"
  using start_seq_while_running [of gui_running]
  by (simp add: gui_running_eq)





end
